theory Spec2Isabelle
  imports Main
begin

section \<open>Python values and the calls that leave the library\<close>

text \<open>
  The bindings are three small classes (\<open>SimulationApp\<close>, \<open>WebRTCClient\<close>,
  \<open>RESTClient\<close>) and \<open>IsaacSimEnvironment\<close>, which owns one of each. Every method is
  a short sequence of attribute updates around calls into \<open>subprocess\<close>, \<open>websockets\<close> and
  \<open>aiohttp\<close>. Each object is a record, each method a function from the object to the
  value returned, the updated object and the list of outside calls it made, in order.
  What an outside call answers is read from a \<open>world\<close> record; an exception is a value.
\<close>

datatype exn =
    ConnectionClosed string
  | JSONDecodeError string
  | AttributeError string
  | TypeError string
  | OtherException string

text \<open>\<open>str(e)\<close>: the text of an exception.\<close>

fun str_exn :: "exn \<Rightarrow> string" where
  "str_exn (ConnectionClosed m) = m"
| "str_exn (JSONDecodeError m) = m"
| "str_exn (AttributeError m) = m"
| "str_exn (TypeError m) = m"
| "str_exn (OtherException m) = m"

text \<open>
  Values decoded from JSON, and the dictionaries the code builds itself. An object is
  the list of its members in document order; a later member with the same key wins, as
  in the dictionary \<open>json.loads\<close> builds. \<open>JNull\<close> is Python's \<open>None\<close>.
\<close>

datatype json =
    JNull
  | JBool bool
  | JNum int
  | JStr string
  | JArr "json list"
  | JObj "(string \<times> json) list"

text \<open>\<open>d.get(k)\<close> on a dictionary: the value, or \<open>None\<close>.\<close>

definition dict_get :: "(string \<times> json) list \<Rightarrow> string \<Rightarrow> json" where
  "dict_get kvs k = (case map_of (rev kvs) k of None \<Rightarrow> JNull | Some v \<Rightarrow> v)"

fun str_contains :: "string \<Rightarrow> string \<Rightarrow> bool" where
  "str_contains k [] = (k = [])"
| "str_contains k (c # s) = (take (length k) (c # s) = k \<or> str_contains k s)"

text \<open>
  \<open>k in x\<close> for a string \<open>k\<close>: key membership on a dictionary, element membership on
  a list, substring on a string, and \<open>TypeError\<close> on a number, a boolean or \<open>None\<close>.
\<close>

fun py_in :: "string \<Rightarrow> json \<Rightarrow> exn + bool" where
  "py_in k (JObj kvs) = Inr (k \<in> fst ` set kvs)"
| "py_in k (JArr xs) = Inr (JStr k \<in> set xs)"
| "py_in k (JStr s) = Inr (str_contains k s)"
| "py_in k JNull = Inl (TypeError ''argument of type 'NoneType' is not iterable'')"
| "py_in k (JBool b) = Inl (TypeError ''argument of type 'bool' is not iterable'')"
| "py_in k (JNum n) = Inl (TypeError ''argument of type 'int' is not iterable'')"

text \<open>\<open>str(n)\<close> for an integer, as the f-strings and \<open>str(self.webrtc_port)\<close> use it.\<close>

function str_nat :: "nat \<Rightarrow> string" where
  "str_nat n =
     (if n < 10 then [''0123456789'' ! n]
      else str_nat (n div 10) @ [''0123456789'' ! (n mod 10)])"
  by pat_completeness auto
termination
  by (relation "measure (\<lambda>n. n)") auto

definition str_int :: "int \<Rightarrow> string" where
  "str_int i = (if i < 0 then CHR ''-'' # str_nat (nat (- i)) else str_nat (nat i))"

text \<open>
  The calls that leave the library, as they appear in a trace. Handles (a child process,
  a websocket, an HTTP session) are numbers.
\<close>

datatype event =
    Pgrep
  | Popen "string list"
  | Sleep nat
  | Poll nat
  | Terminate nat
  | Wait nat
  | WsConnect string
  | WsClose nat
  | WsSend nat json
  | WsIterate nat
  | FrameCallback json
  | AudioCallback json
  | SessionCreate
  | SessionClose nat
  | HttpRequest nat string string "json option"

text \<open>
  One inbound websocket message is what \<open>json.loads\<close> makes of it: a decoded value, or
  \<open>JSONDecodeError\<close>. The iteration \<open>async for message in self.websocket\<close> hands over
  finitely many messages before it ends, either normally or by raising.
\<close>

datatype inbound = Undecodable string | Decoded json

datatype iter_end = EndOfStream | IterRaises exn

text \<open>
  An HTTP exchange: \<open>session.request\<close> raises, or gives a response with a status, and
  \<open>response.json()\<close> and \<open>response.text()\<close> each give a value or raise.
\<close>

datatype http_outcome =
    RequestRaises exn
  | Response int "exn + json" "exn + string"

text \<open>What the outside answers during one call of a method.\<close>

record world =
  pgrep :: "exn + int"
  popen :: "exn + nat"
  poll :: "int option"
  terminate :: "exn option"
  wait :: "exn option"
  ws_connect :: "exn + nat"
  ws_close :: "exn option"
  ws_send :: "exn option"
  ws_messages :: "inbound list"
  ws_end :: iter_end
  new_session :: nat
  session_close :: "exn option"
  http :: http_outcome

section \<open>SimulationApp\<close>

text \<open>
  \<open>simulation_app.py\<close>. The constructor reads four keys of its configuration with
  defaults; \<open>process\<close> is \<open>None\<close> and \<open>is_running\<close> is false. The two set-up helpers it
  calls only touch \<open>sys.path\<close> and \<open>os.environ\<close>.
\<close>

record sim_config =
  cfg_sim_webrtc_port :: "int option"
  cfg_sim_rest_port :: "int option"
  cfg_headless :: "bool option"
  cfg_livestream :: "string option"

record simulation_app_t =
  process :: "nat option"
  is_running :: bool
  webrtc_port :: int
  rest_port :: int
  headless :: bool
  livestream :: string

definition get_default :: "'a option \<Rightarrow> 'a \<Rightarrow> 'a" where
  "get_default v d = (case v of None \<Rightarrow> d | Some x \<Rightarrow> x)"

definition SimulationApp :: "sim_config \<Rightarrow> simulation_app_t" where
  "SimulationApp config =
     \<lparr> process = None,
       is_running = False,
       webrtc_port = get_default (cfg_sim_webrtc_port config) 8211,
       rest_port = get_default (cfg_sim_rest_port config) 3009,
       headless = get_default (cfg_headless config) True,
       livestream = get_default (cfg_livestream config) ''webrtc'' \<rparr>"

text \<open>The command line of \<open>start\<close>, after the empty arguments are removed.\<close>

definition isaac_cmd :: "simulation_app_t \<Rightarrow> string list" where
  "isaac_cmd a =
     filter (\<lambda>arg. arg \<noteq> [])
       [''/workspace/isaac-sim-5.0/_build/linux-x86_64/release/omni.isaac.sim'',
        (if headless a then ''--headless'' else ''''),
        ''--livestream'', livestream a,
        ''--webrtc-port'', str_int (webrtc_port a),
        ''--rest-port'', str_int (rest_port a)]"

text \<open>
  \<open>_is_isaac_running\<close>: \<open>pgrep -f isaac-sim\<close> returned 0; an exception of the call is
  caught and answers false.
\<close>

definition is_isaac_running :: "world \<Rightarrow> bool \<times> event list" where
  "is_isaac_running w =
     (case pgrep w of
        Inl e \<Rightarrow> (False, [Pgrep])
      | Inr returncode \<Rightarrow> (returncode = 0, [Pgrep]))"

text \<open>
  The \<open>try\<close> block of \<open>start\<close>. \<open>Popen\<close> may raise; the assignment to \<open>self.process\<close>
  then does not happen.
\<close>

definition start_body :: "world \<Rightarrow> simulation_app_t \<Rightarrow> (exn + bool) \<times> simulation_app_t \<times> event list" where
  "start_body w a =
     (case is_isaac_running w of
        (True, ev) \<Rightarrow> (Inr True, a\<lparr>is_running := True\<rparr>, ev)
      | (False, ev) \<Rightarrow>
          (case popen w of
             Inl e \<Rightarrow> (Inl e, a, ev @ [Popen (isaac_cmd a)])
           | Inr p \<Rightarrow>
               (let a1 = a\<lparr>process := Some p\<rparr>;
                    ev1 = ev @ [Popen (isaac_cmd a), Sleep 2, Poll p]
                in (case poll w of
                      None \<Rightarrow> (Inr True, a1\<lparr>is_running := True\<rparr>, ev1)
                    | Some returncode \<Rightarrow> (Inr False, a1, ev1)))))"

text \<open>\<open>start\<close>: the guard on \<open>is_running\<close>, then the block, with \<open>except Exception\<close>.\<close>

definition start :: "world \<Rightarrow> simulation_app_t \<Rightarrow> bool \<times> simulation_app_t \<times> event list" where
  "start w a =
     (if is_running a then (True, a, [])
      else (case start_body w a of
              (Inr r, a', ev) \<Rightarrow> (r, a', ev)
            | (Inl e, a', ev) \<Rightarrow> (False, a', ev)))"


section \<open>WebRTCClient\<close>

text \<open>
  \<open>webrtc_client.py\<close>. A consumer is a callable that is awaited with the payload; all
  the client sees of it is whether the call raised.
\<close>

type_synonym callback = "json \<Rightarrow> exn option"

record webrtc_client_t =
  wc_host :: string
  wc_port :: int
  websocket :: "nat option"
  is_connected :: bool
  on_frame_callback :: "callback option"
  on_audio_callback :: "callback option"

definition WebRTCClient :: "string \<Rightarrow> int \<Rightarrow> webrtc_client_t" where
  "WebRTCClient host port =
     \<lparr> wc_host = host, wc_port = port, websocket = None, is_connected = False,
       on_frame_callback = None, on_audio_callback = None \<rparr>"

text \<open>\<open>self.webrtc_url\<close>, fixed by the constructor from the host and the port.\<close>

definition webrtc_url :: "webrtc_client_t \<Rightarrow> string" where
  "webrtc_url c = ''ws://'' @ wc_host c @ '':'' @ str_int (wc_port c) @ ''/streaming/webrtc''"

text \<open>
  \<open>connect\<close>: no test of the current state. A new transport is requested on every call;
  its handle replaces the stored one on success, and on failure the stored handle stays
  and \<open>is_connected\<close> becomes false.
\<close>

definition connect :: "world \<Rightarrow> webrtc_client_t \<Rightarrow> bool \<times> webrtc_client_t \<times> event list" where
  "connect w c =
     (case ws_connect w of
        Inr h \<Rightarrow> (True, c\<lparr>websocket := Some h, is_connected := True\<rparr>, [WsConnect (webrtc_url c)])
      | Inl e \<Rightarrow> (False, c\<lparr>is_connected := False\<rparr>, [WsConnect (webrtc_url c)]))"

text \<open>\<open>disconnect\<close>: \<open>close()\<close> is not guarded; when it raises, neither attribute changes.\<close>

definition disconnect :: "world \<Rightarrow> webrtc_client_t \<Rightarrow> exn option \<times> webrtc_client_t \<times> event list" where
  "disconnect w c =
     (case websocket c of
        None \<Rightarrow> (None, c\<lparr>is_connected := False\<rparr>, [])
      | Some h \<Rightarrow>
          (case ws_close w of
             Some e \<Rightarrow> (Some e, c, [WsClose h])
           | None \<Rightarrow> (None, c\<lparr>websocket := None, is_connected := False\<rparr>, [WsClose h])))"

text \<open>
  \<open>send_message\<close>: nothing is sent unless connected with a handle; a failure of the
  send is logged and goes no further, so both answers of the transport leave the same
  trace and no value.
\<close>

definition send_message :: "world \<Rightarrow> webrtc_client_t \<Rightarrow> json \<Rightarrow> event list" where
  "send_message w c message =
     (case websocket c of
        None \<Rightarrow> []
      | Some h \<Rightarrow>
          (if \<not> is_connected c then []
           else (case ws_send w of
                   None \<Rightarrow> [WsSend h message]
                 | Some e \<Rightarrow> [WsSend h message])))"

text \<open>
  \<open>_handle_message\<close>: \<open>data.get\<close> needs a dictionary (anything else raises
  \<open>AttributeError\<close>); an exception of the awaited consumer passes through.
\<close>

definition handle_message :: "webrtc_client_t \<Rightarrow> json \<Rightarrow> exn option \<times> event list" where
  "handle_message c data =
     (case data of
        JObj kvs \<Rightarrow>
          (let message_type = dict_get kvs ''type'' in
           if message_type = JStr ''frame'' then
             (case on_frame_callback c of
                Some cb \<Rightarrow> (cb (dict_get kvs ''frame''), [FrameCallback (dict_get kvs ''frame'')])
              | None \<Rightarrow> (None, []))
           else if message_type = JStr ''audio'' then
             (case on_audio_callback c of
                Some cb \<Rightarrow> (cb (dict_get kvs ''audio''), [AudioCallback (dict_get kvs ''audio'')])
              | None \<Rightarrow> (None, []))
           else if message_type = JStr ''status'' then (None, [])
           else (None, []))
      | _ \<Rightarrow> (Some (AttributeError ''object has no attribute 'get' ''), []))"

text \<open>
  The body of the \<open>async for\<close>: an undecodable message is skipped, and whatever
  \<open>_handle_message\<close> raises is caught, so the loop always goes on to the next message.
\<close>

fun receive_loop :: "webrtc_client_t \<Rightarrow> inbound list \<Rightarrow> event list" where
  "receive_loop c [] = []"
| "receive_loop c (Undecodable s # ms) = receive_loop c ms"
| "receive_loop c (Decoded data # ms) =
     (case handle_message c data of (r, ev) \<Rightarrow> ev @ receive_loop c ms)"

text \<open>
  \<open>receive_messages\<close>: the two handlers around the iteration differ. Only
  \<open>ConnectionClosed\<close> clears \<open>is_connected\<close>; any other exception is logged.
\<close>

definition receive_messages :: "world \<Rightarrow> webrtc_client_t \<Rightarrow> webrtc_client_t \<times> event list" where
  "receive_messages w c =
     (case websocket c of
        None \<Rightarrow> (c, [])
      | Some h \<Rightarrow>
          (if \<not> is_connected c then (c, [])
           else (let ev = WsIterate h # receive_loop c (ws_messages w)
                 in (case ws_end w of
                       EndOfStream \<Rightarrow> (c, ev)
                     | IterRaises (ConnectionClosed m) \<Rightarrow> (c\<lparr>is_connected := False\<rparr>, ev)
                     | IterRaises e \<Rightarrow> (c, ev)))))"

definition set_frame_callback :: "callback option \<Rightarrow> webrtc_client_t \<Rightarrow> webrtc_client_t" where
  "set_frame_callback cb c = c\<lparr>on_frame_callback := cb\<rparr>"

definition set_audio_callback :: "callback option \<Rightarrow> webrtc_client_t \<Rightarrow> webrtc_client_t" where
  "set_audio_callback cb c = c\<lparr>on_audio_callback := cb\<rparr>"

definition start_streaming_message :: json where
  "start_streaming_message = JObj [(''type'', JStr ''start_streaming''), (''format'', JStr ''webrtc'')]"

definition stop_streaming_message :: json where
  "stop_streaming_message = JObj [(''type'', JStr ''stop_streaming'')]"

definition start_streaming :: "world \<Rightarrow> webrtc_client_t \<Rightarrow> bool \<times> webrtc_client_t \<times> event list" where
  "start_streaming w c =
     (if \<not> is_connected c then
        (case connect w c of
           (False, c1, ev1) \<Rightarrow> (False, c1, ev1)
         | (True, c1, ev1) \<Rightarrow> (True, c1, ev1 @ send_message w c1 start_streaming_message))
      else (True, c, send_message w c start_streaming_message))"

definition stop_streaming :: "world \<Rightarrow> webrtc_client_t \<Rightarrow> event list" where
  "stop_streaming w c =
     (if is_connected c then send_message w c stop_streaming_message else [])"

text \<open>
  The operations of the client as a caller can issue them one after another, each with
  the answers the outside gives during that call. An exception that leaves
  \<open>disconnect\<close> reaches the caller; the object stays as the method left it.
\<close>

datatype client_op =
    OpConnect
  | OpDisconnect
  | OpSendMessage json
  | OpReceiveMessages
  | OpStartStreaming
  | OpStopStreaming
  | OpSetFrameCallback "callback option"
  | OpSetAudioCallback "callback option"

fun client_step :: "webrtc_client_t \<Rightarrow> client_op \<times> world \<Rightarrow> webrtc_client_t" where
  "client_step c (OpConnect, w) = fst (snd (connect w c))"
| "client_step c (OpDisconnect, w) = fst (snd (disconnect w c))"
| "client_step c (OpSendMessage m, w) = c"
| "client_step c (OpReceiveMessages, w) = fst (receive_messages w c)"
| "client_step c (OpStartStreaming, w) = fst (snd (start_streaming w c))"
| "client_step c (OpStopStreaming, w) = c"
| "client_step c (OpSetFrameCallback cb, w) = set_frame_callback cb c"
| "client_step c (OpSetAudioCallback cb, w) = set_audio_callback cb c"

definition client_run :: "webrtc_client_t \<Rightarrow> (client_op \<times> world) list \<Rightarrow> webrtc_client_t" where
  "client_run c ops = foldl client_step c ops"

section \<open>RESTClient\<close>

record rest_client_t =
  rc_host :: string
  rc_port :: int
  session :: "nat option"

definition RESTClient :: "string \<Rightarrow> int \<Rightarrow> rest_client_t" where
  "RESTClient host port = \<lparr> rc_host = host, rc_port = port, session = None \<rparr>"

text \<open>
  \<open>connect\<close> creates the \<open>aiohttp.ClientSession\<close> only when there is none. The
  constructor of the session allocates a local object and is taken not to raise.
\<close>

definition rest_connect :: "world \<Rightarrow> rest_client_t \<Rightarrow> rest_client_t \<times> event list" where
  "rest_connect w r =
     (case session r of
        None \<Rightarrow> (r\<lparr>session := Some (new_session w)\<rparr>, [SessionCreate])
      | Some s \<Rightarrow> (r, []))"


definition error_result :: "string \<Rightarrow> json" where
  "error_result reason = JObj [(''error'', JStr reason)]"

text \<open>
  The \<open>try\<close> block of \<open>_make_request\<close>: status 200 returns the decoded body; any other
  status reads the body text for the log line and returns the \<open>HTTP\<close> error value.
  The request, the decoding and the reading of the text may each raise.
\<close>

definition request_body :: "world \<Rightarrow> exn + json" where
  "request_body w =
     (case http w of
        RequestRaises e \<Rightarrow> Inl e
      | Response status body text \<Rightarrow>
          (if status = 200 then body
           else (case text of
                   Inl e \<Rightarrow> Inl e
                 | Inr t \<Rightarrow> Inr (error_result (''HTTP '' @ str_int status)))))"

text \<open>
  \<open>_make_request\<close>: connect lazily, then the block with \<open>except Exception\<close>, which
  turns the exception into the error value. (\<open>urljoin\<close> of the base URL and the endpoint
  is recorded as the endpoint.)
\<close>

definition make_request ::
  "world \<Rightarrow> rest_client_t \<Rightarrow> string \<Rightarrow> string \<Rightarrow> json option \<Rightarrow> json \<times> rest_client_t \<times> event list" where
  "make_request w r method endpoint data =
     (case (if session r = None then rest_connect w r else (r, [])) of
        (r1, ev1) \<Rightarrow>
          (case session r1 of
             None \<Rightarrow> (error_result ''object has no attribute 'request' '', r1, ev1)
           | Some s \<Rightarrow>
               (case request_body w of
                  Inr result \<Rightarrow> (result, r1, ev1 @ [HttpRequest s method endpoint data])
                | Inl e \<Rightarrow> (error_result (str_exn e), r1, ev1 @ [HttpRequest s method endpoint data]))))"

text \<open>Truth value of a Python value: \<open>None\<close>, false, zero and the empty containers are falsy.\<close>

fun py_truthy :: "json \<Rightarrow> bool" where
  "py_truthy JNull = False"
| "py_truthy (JBool b) = b"
| "py_truthy (JNum n) = (n \<noteq> 0)"
| "py_truthy (JStr s) = (s \<noteq> [])"
| "py_truthy (JArr xs) = (xs \<noteq> [])"
| "py_truthy (JObj kvs) = (kvs \<noteq> [])"

text \<open>
  The two wrappers the environment uses. The first posts \<open>config or {}\<close>: the
  configuration when it is truthy, the empty dictionary otherwise.
\<close>

definition rest_start_simulation ::
  "world \<Rightarrow> rest_client_t \<Rightarrow> json option \<Rightarrow> json \<times> rest_client_t \<times> event list" where
  "rest_start_simulation w r config =
     make_request w r ''POST'' ''/simulation/start''
       (Some (case config of
                None \<Rightarrow> JObj []
              | Some c \<Rightarrow> (if py_truthy c then c else JObj [])))"

definition rest_stop_simulation :: "world \<Rightarrow> rest_client_t \<Rightarrow> json \<times> rest_client_t \<times> event list" where
  "rest_stop_simulation w r = make_request w r ''POST'' ''/simulation/stop'' None"

section \<open>IsaacSimEnvironment\<close>

text \<open>
  \<open>environment.py\<close>. The constructor builds the three components from the configuration
  (\<open>host\<close>, \<open>webrtc_port\<close>, \<open>rest_port\<close>, and the \<open>simulation\<close> sub-dictionary, each
  with its default). The attributes start as \<open>None\<close> and the methods test them, so they
  are optional here as well; a method call on \<open>None\<close> raises \<open>AttributeError\<close>.
\<close>

record env_config =
  cfg_host :: "string option"
  cfg_webrtc_port :: "int option"
  cfg_rest_port :: "int option"
  cfg_simulation :: "sim_config option"

record env =
  simulation_app :: "simulation_app_t option"
  webrtc_client :: "webrtc_client_t option"
  rest_client :: "rest_client_t option"
  is_initialized :: bool

definition empty_sim_config :: sim_config where
  "empty_sim_config =
     \<lparr> cfg_sim_webrtc_port = None, cfg_sim_rest_port = None,
       cfg_headless = None, cfg_livestream = None \<rparr>"

definition IsaacSimEnvironment :: "env_config \<Rightarrow> env" where
  "IsaacSimEnvironment config =
     \<lparr> simulation_app = Some (SimulationApp (get_default (cfg_simulation config) empty_sim_config)),
       webrtc_client =
         Some (WebRTCClient (get_default (cfg_host config) ''3.239.124.24'')
                 (get_default (cfg_webrtc_port config) 8211)),
       rest_client =
         Some (RESTClient (get_default (cfg_host config) ''3.239.124.24'')
                 (get_default (cfg_rest_port config) 3009)),
       is_initialized = False \<rparr>"

definition none_error :: "string \<Rightarrow> exn" where
  "none_error attr = AttributeError (''NoneType object has no attribute '' @ attr)"

text \<open>
  The \<open>try\<close> block of \<open>initialize\<close>: the process start decides; the answer of the
  streaming connect is only logged; then the control-plane session is created and the
  flag set.
\<close>

definition initialize_body :: "world \<Rightarrow> env \<Rightarrow> (exn + bool) \<times> env \<times> event list" where
  "initialize_body w e =
     (case simulation_app e of
        None \<Rightarrow> (Inl (none_error ''start''), e, [])
      | Some a \<Rightarrow>
          (case start w a of
             (False, a1, ev1) \<Rightarrow> (Inr False, e\<lparr>simulation_app := Some a1\<rparr>, ev1)
           | (True, a1, ev1) \<Rightarrow>
               (let e1 = e\<lparr>simulation_app := Some a1\<rparr> in
                case webrtc_client e1 of
                  None \<Rightarrow> (Inl (none_error ''connect''), e1, ev1)
                | Some c \<Rightarrow>
                    (case connect w c of
                       (ok, c1, ev2) \<Rightarrow>
                         (let e2 = e1\<lparr>webrtc_client := Some c1\<rparr> in
                          case rest_client e2 of
                            None \<Rightarrow> (Inl (none_error ''connect''), e2, ev1 @ ev2)
                          | Some r \<Rightarrow>
                              (case rest_connect w r of
                                 (r1, ev3) \<Rightarrow>
                                   (Inr True,
                                    e2\<lparr>rest_client := Some r1, is_initialized := True\<rparr>,
                                    ev1 @ ev2 @ ev3)))))))"

definition initialize :: "world \<Rightarrow> env \<Rightarrow> bool \<times> env \<times> event list" where
  "initialize w e =
     (case initialize_body w e of
        (Inr r, e', ev) \<Rightarrow> (r, e', ev)
      | (Inl x, e', ev) \<Rightarrow> (False, e', ev))"






text \<open>
  What both simulation calls do with the result of the control-plane client, inside
  their \<open>try\<close>: true when \<open>'error' not in result\<close>, false when it is in, and false
  through \<open>except Exception\<close> when the test itself raises.
\<close>

definition result_ok :: "json \<Rightarrow> bool" where
  "result_ok result =
     (case py_in ''error'' result of
        Inr found \<Rightarrow> \<not> found
      | Inl x \<Rightarrow> False)"

text \<open>\<open>start_simulation\<close>: the only method that initializes on demand.\<close>

definition start_simulation :: "world \<Rightarrow> env \<Rightarrow> json option \<Rightarrow> bool \<times> env \<times> event list" where
  "start_simulation w e config =
     (case (if \<not> is_initialized e then initialize w e else (True, e, [])) of
        (False, e1, ev1) \<Rightarrow> (False, e1, ev1)
      | (True, e1, ev1) \<Rightarrow>
          (case rest_client e1 of
             None \<Rightarrow> (False, e1, ev1)
           | Some r \<Rightarrow>
               (case rest_start_simulation w r config of
                  (result, r1, ev2) \<Rightarrow>
                    (result_ok result, e1\<lparr>rest_client := Some r1\<rparr>, ev1 @ ev2))))"

text \<open>\<open>stop_simulation\<close>: the \<open>try\<close> block comes first; \<open>is_initialized\<close> is not read.\<close>

definition stop_simulation :: "world \<Rightarrow> env \<Rightarrow> bool \<times> env \<times> event list" where
  "stop_simulation w e =
     (case rest_client e of
        None \<Rightarrow> (False, e, [])
      | Some r \<Rightarrow>
          (case rest_stop_simulation w r of
             (result, r1, ev) \<Rightarrow> (result_ok result, e\<lparr>rest_client := Some r1\<rparr>, ev)))"

text \<open>
  The outside calls \<open>initialize\<close> can make before it creates the control-plane session:
  those of the process start and the opening of the streaming transport.
\<close>

fun initialize_event :: "event \<Rightarrow> bool" where
  "initialize_event Pgrep = True"
| "initialize_event (Popen cmd) = True"
| "initialize_event (Sleep n) = True"
| "initialize_event (Poll p) = True"
| "initialize_event (WsConnect url) = True"
| "initialize_event ev = False"

text \<open>The outside calls that open a streaming transport or a control-plane session.\<close>

fun connection_event :: "event \<Rightarrow> bool" where
  "connection_event (WsConnect url) = True"
| "connection_event SessionCreate = True"
| "connection_event ev = False"

fun frame_event :: "event \<Rightarrow> bool" where
  "frame_event (FrameCallback v) = True"
| "frame_event ev = False"

fun audio_event :: "event \<Rightarrow> bool" where
  "audio_event (AudioCallback v) = True"
| "audio_event ev = False"

section \<open>Concrete objects and answers of the outside\<close>

text \<open>
  A world in which every outside call succeeds: no simulator is found by \<open>pgrep\<close>, the
  launched child stays alive, the transport opens, and the control plane answers 200 with
  an empty object.
\<close>

definition quiet_world :: world where
  "quiet_world =
     \<lparr> pgrep = Inr 1, popen = Inr 4242, poll = None, terminate = None, wait = None,
       ws_connect = Inr 7, ws_close = None, ws_send = None, ws_messages = [],
       ws_end = EndOfStream, new_session = 1, session_close = None,
       http = Response 200 (Inr (JObj [])) (Inr []) \<rparr>"

definition default_config :: env_config where
  "default_config =
     \<lparr> cfg_host = None, cfg_webrtc_port = None, cfg_rest_port = None, cfg_simulation = None \<rparr>"

text \<open>Two consumers: one returns, one raises.\<close>

definition ok_callback :: callback where
  "ok_callback payload = None"

definition failing_callback :: callback where
  "failing_callback payload = Some (OtherException ''consumer failed'')"

text \<open>A client that has connected in the quiet world and has both consumers registered.\<close>

definition connected_client :: webrtc_client_t where
  "connected_client =
     set_audio_callback (Some ok_callback)
       (set_frame_callback (Some failing_callback)
          (fst (snd (connect quiet_world (WebRTCClient ''localhost'' 9000)))))"

text \<open>One inbound message of each kind.\<close>

definition frame_msg :: "(string \<times> json) list" where
  "frame_msg = [(''type'', JStr ''frame''), (''frame'', JStr ''F0'')]"

definition audio_msg :: "(string \<times> json) list" where
  "audio_msg = [(''type'', JStr ''audio''), (''audio'', JStr ''A0'')]"

definition status_msg :: "(string \<times> json) list" where
  "status_msg = [(''type'', JStr ''status''), (''status'', JStr ''ready'')]"

definition unknown_msg :: "(string \<times> json) list" where
  "unknown_msg = [(''type'', JStr ''unknown'')]"

text \<open>The environment after a successful \<open>initialize\<close> in the quiet world.\<close>

definition ready_env :: env where
  "ready_env = fst (snd (initialize quiet_world (IsaacSimEnvironment default_config)))"

text \<open>Worlds that differ from the quiet one in a single answer.\<close>

definition exiting_world :: world where
  "exiting_world = quiet_world\<lparr>poll := Some 1\<rparr>"

definition no_binary_world :: world where
  "no_binary_world = quiet_world\<lparr>popen := Inl (OtherException ''No such file or directory'')\<rparr>"

definition no_stream_world :: world where
  "no_stream_world = quiet_world\<lparr>ws_connect := Inl (OtherException ''refused'')\<rparr>"

definition second_transport_world :: world where
  "second_transport_world = quiet_world\<lparr>ws_connect := Inr 8\<rparr>"



definition reset_world :: world where
  "reset_world = quiet_world\<lparr>ws_end := IterRaises (OtherException ''connection reset'')\<rparr>"

definition closed_world :: world where
  "closed_world = quiet_world\<lparr>ws_end := IterRaises (ConnectionClosed ''no close frame received'')\<rparr>"

definition http500_world :: world where
  "http500_world =
     quiet_world\<lparr>http := Response 500 (Inr JNull) (Inr ''Internal Server Error'')\<rparr>"

definition http500_unreadable_world :: world where
  "http500_unreadable_world =
     quiet_world\<lparr>http := Response 500 (Inr JNull) (Inl (OtherException ''payload error''))\<rparr>"

definition unreachable_world :: world where
  "unreachable_world = quiet_world\<lparr>http := RequestRaises (OtherException ''Cannot connect to host'')\<rparr>"

text \<open>\<open>except websockets.exceptions.ConnectionClosed\<close>: the exceptions that handler takes.\<close>

fun is_connection_closed :: "exn \<Rightarrow> bool" where
  "is_connection_closed (ConnectionClosed m) = True"
| "is_connection_closed e = False"





text \<open>The property that the connected flag is only set while a transport handle is stored.\<close>

definition transport_inv :: "webrtc_client_t \<Rightarrow> bool" where
  "transport_inv c = (is_connected c \<longrightarrow> websocket c \<noteq> None)"

section \<open>Evaluation lemmas\<close>

lemma str_int_500: "str_int 500 = ''500''"
  by (simp add: str_int_def)

lemma connected_client_fields:
  "websocket connected_client = Some 7"
  "is_connected connected_client"
  "on_frame_callback connected_client = Some failing_callback"
  "on_audio_callback connected_client = Some ok_callback"
  by (simp_all add: connected_client_def set_audio_callback_def set_frame_callback_def
      connect_def quiet_world_def WebRTCClient_def)

section \<open>The streaming client keeps a handle while connected\<close>

lemma inv_connect: "transport_inv (fst (snd (connect w c)))"
  by (simp add: transport_inv_def connect_def split: sum.splits)

lemma inv_disconnect: "transport_inv c \<Longrightarrow> transport_inv (fst (snd (disconnect w c)))"
  by (simp add: transport_inv_def disconnect_def split: option.splits)

lemma inv_receive: "transport_inv c \<Longrightarrow> transport_inv (fst (receive_messages w c))"
  by (auto simp: transport_inv_def receive_messages_def Let_def
      split: option.splits iter_end.splits exn.splits)

lemma inv_start_streaming: "transport_inv c \<Longrightarrow> transport_inv (fst (snd (start_streaming w c)))"
  by (simp add: transport_inv_def start_streaming_def connect_def split: sum.splits)

lemma inv_set_callback:
  "transport_inv c \<Longrightarrow> transport_inv (set_frame_callback cb c)"
  "transport_inv c \<Longrightarrow> transport_inv (set_audio_callback cb c)"
  by (simp_all add: transport_inv_def set_frame_callback_def set_audio_callback_def)

lemma inv_step: "transport_inv c \<Longrightarrow> transport_inv (client_step c ow)"
proof (cases ow)
  case (Pair op w)
  assume "transport_inv c"
  then show ?thesis
    unfolding Pair
    by (cases op)
      (simp_all add: inv_connect inv_disconnect inv_receive inv_start_streaming inv_set_callback)
qed

lemma inv_foldl: "transport_inv c \<Longrightarrow> transport_inv (foldl client_step c ops)"
  by (induction ops arbitrary: c) (simp_all add: inv_step)

text \<open>
  C10. In the freshly constructed streaming client and after every sequence of
  \<open>connect\<close>, \<open>disconnect\<close>, \<open>send_message\<close>, \<open>receive_messages\<close>, \<open>start_streaming\<close>,
  \<open>stop_streaming\<close> and the two callback setters, whatever the outside answers in each
  call: when \<open>is_connected\<close> is true, the websocket handle is not \<open>None\<close>.
\<close>

theorem connected_has_transport:
  "is_connected (client_run (WebRTCClient host port) ops) \<longrightarrow>
   websocket (client_run (WebRTCClient host port) ops) \<noteq> None"
proof -
  have "transport_inv (WebRTCClient host port)"
    by (simp add: transport_inv_def WebRTCClient_def)
  then have "transport_inv (client_run (WebRTCClient host port) ops)"
    unfolding client_run_def by (rule inv_foldl)
  then show ?thesis
    by (simp add: transport_inv_def)
qed

theorem connected_has_transport_witness:
  "is_connected (client_run (WebRTCClient ''localhost'' 9000) [(OpConnect, quiet_world)])
   \<and> websocket (client_run (WebRTCClient ''localhost'' 9000) [(OpConnect, quiet_world)]) \<noteq> None"
proof -
  have h: "is_connected (client_run (WebRTCClient ''localhost'' 9000) [(OpConnect, quiet_world)])"
    by (simp add: client_run_def connect_def quiet_world_def WebRTCClient_def)
  with connected_has_transport [of "''localhost''" 9000 "[(OpConnect, quiet_world)]"]
  show ?thesis by simp
qed

section \<open>Dispatch of inbound messages\<close>

text \<open>
  C7. \<open>_handle_message\<close> on a dictionary tagged \<open>frame\<close> awaits the registered frame
  consumer with the \<open>frame\<close> payload and nothing else; tagged \<open>audio\<close>, the registered
  audio consumer with the \<open>audio\<close> payload and nothing else; tagged \<open>status\<close> or anything
  else, no consumer. So when a connected client with both consumers registered receives
  \<open>frame\<close>, \<open>audio\<close>, \<open>status\<close>, unknown in that order, the loop calls the frame consumer
  once and the audio consumer once, whether or not a consumer raises.
\<close>

theorem dispatch_by_type:
  "(dict_get kvs ''type'' = JStr ''frame'' \<and> on_frame_callback c = Some f \<longrightarrow>
      handle_message c (JObj kvs) =
        (f (dict_get kvs ''frame''), [FrameCallback (dict_get kvs ''frame'')]))
   \<and> (dict_get kvs ''type'' = JStr ''audio'' \<and> on_audio_callback c = Some g \<longrightarrow>
      handle_message c (JObj kvs) =
        (g (dict_get kvs ''audio''), [AudioCallback (dict_get kvs ''audio'')]))
   \<and> (dict_get kvs ''type'' \<noteq> JStr ''frame'' \<and> dict_get kvs ''type'' \<noteq> JStr ''audio'' \<longrightarrow>
      handle_message c (JObj kvs) = (None, []))
   \<and> (is_connected c \<and> websocket c = Some h
      \<and> on_frame_callback c = Some f \<and> on_audio_callback c = Some g
      \<and> dict_get k1 ''type'' = JStr ''frame'' \<and> dict_get k2 ''type'' = JStr ''audio''
      \<and> dict_get k3 ''type'' = JStr ''status''
      \<and> dict_get k4 ''type'' \<noteq> JStr ''frame'' \<and> dict_get k4 ''type'' \<noteq> JStr ''audio''
      \<and> ws_messages w = [Decoded (JObj k1), Decoded (JObj k2), Decoded (JObj k3), Decoded (JObj k4)]
      \<longrightarrow>
        snd (receive_messages w c) =
          [WsIterate h, FrameCallback (dict_get k1 ''frame''), AudioCallback (dict_get k2 ''audio'')]
        \<and> length (filter frame_event (snd (receive_messages w c))) = 1
        \<and> length (filter audio_event (snd (receive_messages w c))) = 1)"
  by (auto simp: handle_message_def receive_messages_def Let_def
      split: iter_end.splits exn.splits)

theorem dispatch_by_type_witness:
  "handle_message connected_client (JObj frame_msg) =
     (Some (OtherException ''consumer failed''), [FrameCallback (JStr ''F0'')])
   \<and> handle_message connected_client (JObj audio_msg) = (None, [AudioCallback (JStr ''A0'')])
   \<and> handle_message connected_client (JObj status_msg) = (None, [])
   \<and> snd (receive_messages
        (quiet_world\<lparr>ws_messages :=
           [Decoded (JObj frame_msg), Decoded (JObj audio_msg),
            Decoded (JObj status_msg), Decoded (JObj unknown_msg)]\<rparr>)
        connected_client) =
       [WsIterate 7, FrameCallback (JStr ''F0''), AudioCallback (JStr ''A0'')]"
proof -
  have tags:
    "dict_get frame_msg ''type'' = JStr ''frame''" "dict_get audio_msg ''type'' = JStr ''audio''"
    "dict_get status_msg ''type'' = JStr ''status''" "dict_get unknown_msg ''type'' = JStr ''unknown''"
    "dict_get frame_msg ''frame'' = JStr ''F0''" "dict_get audio_msg ''audio'' = JStr ''A0''"
    by (simp_all add: dict_get_def frame_msg_def audio_msg_def status_msg_def unknown_msg_def)
  have msgs:
    "ws_messages (quiet_world\<lparr>ws_messages :=
           [Decoded (JObj frame_msg), Decoded (JObj audio_msg),
            Decoded (JObj status_msg), Decoded (JObj unknown_msg)]\<rparr>) =
       [Decoded (JObj frame_msg), Decoded (JObj audio_msg),
        Decoded (JObj status_msg), Decoded (JObj unknown_msg)]"
    by simp
  show ?thesis
    using dispatch_by_type [where kvs = frame_msg and c = connected_client
        and f = failing_callback and g = ok_callback]
      dispatch_by_type [where kvs = audio_msg and c = connected_client
        and f = failing_callback and g = ok_callback]
      dispatch_by_type [where kvs = status_msg and c = connected_client]
      dispatch_by_type [where c = connected_client and h = 7
        and f = failing_callback and g = ok_callback
        and ?k1.0 = frame_msg and ?k2.0 = audio_msg and ?k3.0 = status_msg and ?k4.0 = unknown_msg
        and w = "quiet_world\<lparr>ws_messages :=
           [Decoded (JObj frame_msg), Decoded (JObj audio_msg),
            Decoded (JObj status_msg), Decoded (JObj unknown_msg)]\<rparr>"]
      tags msgs connected_client_fields
    by (simp add: failing_callback_def ok_callback_def)
qed

section \<open>Starting the simulator process\<close>

text \<open>
  C9. \<open>SimulationApp.start\<close>: when already running it returns true and does nothing.
  Otherwise it looks for a simulator with \<open>pgrep\<close>; when one is found it marks itself
  running and launches nothing. Otherwise it launches the command once, sleeps the fixed
  two seconds and polls once: still alive gives true and \<open>is_running\<close>, already exited
  gives false with no second launch. When the launch raises, the exception stays inside
  \<open>start\<close>, which returns false.
\<close>

theorem start_contract:
  "(is_running a \<longrightarrow> start w a = (True, a, []))
   \<and> (\<not> is_running a \<and> pgrep w = Inr 0 \<longrightarrow>
        start w a = (True, a\<lparr>is_running := True\<rparr>, [Pgrep]))
   \<and> (\<not> is_running a \<and> pgrep w \<noteq> Inr 0 \<and> popen w = Inr p \<and> poll w = None \<longrightarrow>
        start w a = (True, a\<lparr>process := Some p, is_running := True\<rparr>,
                     [Pgrep, Popen (isaac_cmd a), Sleep 2, Poll p]))
   \<and> (\<not> is_running a \<and> pgrep w \<noteq> Inr 0 \<and> popen w = Inr p \<and> poll w = Some rc \<longrightarrow>
        start w a = (False, a\<lparr>process := Some p\<rparr>,
                     [Pgrep, Popen (isaac_cmd a), Sleep 2, Poll p]))
   \<and> (\<not> is_running a \<and> pgrep w \<noteq> Inr 0 \<and> popen w = Inl x \<longrightarrow>
        start_body w a = (Inl x, a, [Pgrep, Popen (isaac_cmd a)])
        \<and> start w a = (False, a, [Pgrep, Popen (isaac_cmd a)]))"
  by (auto simp: start_def start_body_def is_isaac_running_def split: sum.splits)

theorem start_contract_witness:
  "start quiet_world (SimulationApp empty_sim_config) =
     (True, (SimulationApp empty_sim_config)\<lparr>process := Some 4242, is_running := True\<rparr>,
      [Pgrep, Popen (isaac_cmd (SimulationApp empty_sim_config)), Sleep 2, Poll 4242])
   \<and> start (quiet_world\<lparr>poll := Some 1\<rparr>) (SimulationApp empty_sim_config) =
     (False, (SimulationApp empty_sim_config)\<lparr>process := Some 4242\<rparr>,
      [Pgrep, Popen (isaac_cmd (SimulationApp empty_sim_config)), Sleep 2, Poll 4242])
   \<and> start (quiet_world\<lparr>pgrep := Inr 0\<rparr>) (SimulationApp empty_sim_config) =
     (True, (SimulationApp empty_sim_config)\<lparr>is_running := True\<rparr>, [Pgrep])
   \<and> start (quiet_world\<lparr>popen := Inl (OtherException ''No such file or directory'')\<rparr>)
        (SimulationApp empty_sim_config) =
     (False, SimulationApp empty_sim_config,
      [Pgrep, Popen (isaac_cmd (SimulationApp empty_sim_config))])
   \<and> start quiet_world ((SimulationApp empty_sim_config)\<lparr>is_running := True\<rparr>) =
     (True, (SimulationApp empty_sim_config)\<lparr>is_running := True\<rparr>, [])
   \<and> isaac_cmd (SimulationApp empty_sim_config) =
     [''/workspace/isaac-sim-5.0/_build/linux-x86_64/release/omni.isaac.sim'',
      ''--headless'', ''--livestream'', ''webrtc'', ''--webrtc-port'', ''8211'',
      ''--rest-port'', ''3009'']"
proof -
  let ?a = "SimulationApp empty_sim_config"
  have cmd: "isaac_cmd ?a =
     [''/workspace/isaac-sim-5.0/_build/linux-x86_64/release/omni.isaac.sim'',
      ''--headless'', ''--livestream'', ''webrtc'', ''--webrtc-port'', ''8211'',
      ''--rest-port'', ''3009'']"
    by (simp add: isaac_cmd_def SimulationApp_def empty_sim_config_def get_default_def str_int_def)
  have na: "\<not> is_running ?a" "is_running (?a\<lparr>is_running := True\<rparr>)"
    by (simp_all add: SimulationApp_def)
  have w: "pgrep quiet_world \<noteq> Inr 0" "popen quiet_world = Inr 4242" "poll quiet_world = None"
    by (simp_all add: quiet_world_def)
  show ?thesis
    using start_contract [of ?a quiet_world 4242]
      start_contract [of ?a "quiet_world\<lparr>poll := Some 1\<rparr>" 4242 1]
      start_contract [of ?a "quiet_world\<lparr>pgrep := Inr 0\<rparr>"]
      start_contract [of ?a
          "quiet_world\<lparr>popen := Inl (OtherException ''No such file or directory'')\<rparr>" _ _
          "OtherException ''No such file or directory''"]
      start_contract [of "?a\<lparr>is_running := True\<rparr>" quiet_world]
      na w cmd
    by simp
qed

section \<open>Starting the stream\<close>

lemma webrtc_url_local:
  "webrtc_url (WebRTCClient ''localhost'' 9000) = ''ws://localhost:9000/streaming/webrtc''"
  by (simp add: webrtc_url_def WebRTCClient_def str_int_def)

text \<open>
  C8. \<open>start_streaming\<close> returns false exactly when the client is not connected and the
  connect it then attempts fails; nothing but that connect attempt was made. In every
  other case (on a client that holds a handle whenever it is connected, as every client
  does) it returns true and the last outside call is the send, on the current handle, of
  the message \<open>{'type': 'start_streaming', 'format': 'webrtc'}\<close>, whatever that send
  answers: a failing send changes neither the result nor the trace.
\<close>

theorem start_streaming_result:
  "(fst (start_streaming w c) = False \<longleftrightarrow> \<not> is_connected c \<and> isl (ws_connect w))
   \<and> (\<not> is_connected c \<and> isl (ws_connect w) \<longrightarrow>
        snd (snd (start_streaming w c)) = [WsConnect (webrtc_url c)])
   \<and> (transport_inv c \<and> \<not> (\<not> is_connected c \<and> isl (ws_connect w)) \<longrightarrow>
        fst (start_streaming w c) = True
        \<and> (\<exists>h. websocket (fst (snd (start_streaming w c))) = Some h
             \<and> snd (snd (start_streaming w c)) =
                 (if is_connected c then [] else [WsConnect (webrtc_url c)])
                 @ [WsSend h (JObj [(''type'', JStr ''start_streaming''),
                                    (''format'', JStr ''webrtc'')])]))"
  by (auto simp: transport_inv_def start_streaming_def start_streaming_message_def connect_def
      send_message_def split: sum.splits option.splits)

theorem start_streaming_result_witness:
  "start_streaming (quiet_world\<lparr>ws_send := Some (OtherException ''broken pipe'')\<rparr>)
      (WebRTCClient ''localhost'' 9000) =
     (True, (WebRTCClient ''localhost'' 9000)\<lparr>websocket := Some 7, is_connected := True\<rparr>,
      [WsConnect ''ws://localhost:9000/streaming/webrtc'',
       WsSend 7 (JObj [(''type'', JStr ''start_streaming''), (''format'', JStr ''webrtc'')])])
   \<and> start_streaming (quiet_world\<lparr>ws_connect := Inl (OtherException ''refused'')\<rparr>)
      (WebRTCClient ''localhost'' 9000) =
     (False, WebRTCClient ''localhost'' 9000, [WsConnect ''ws://localhost:9000/streaming/webrtc''])"
proof -
  let ?c = "WebRTCClient ''localhost'' 9000"
  let ?w1 = "quiet_world\<lparr>ws_send := Some (OtherException ''broken pipe'')\<rparr>"
  let ?w2 = "quiet_world\<lparr>ws_connect := Inl (OtherException ''refused'')\<rparr>"
  have h: "transport_inv ?c" "\<not> is_connected ?c" "\<not> isl (ws_connect ?w1)" "isl (ws_connect ?w2)"
    by (simp_all add: transport_inv_def WebRTCClient_def quiet_world_def)
  have st: "fst (snd (start_streaming ?w1 ?c)) = ?c\<lparr>websocket := Some 7, is_connected := True\<rparr>"
    "fst (snd (start_streaming ?w2 ?c)) = ?c"
    by (simp_all add: start_streaming_def connect_def quiet_world_def WebRTCClient_def)
  from start_streaming_result [of ?w1 ?c] start_streaming_result [of ?w2 ?c] h st webrtc_url_local
  show ?thesis
    by (cases "start_streaming ?w1 ?c"; cases "start_streaming ?w2 ?c") auto
qed

section \<open>Tearing down\<close>

lemma ready_env_eq:
  "ready_env =
     \<lparr> simulation_app = Some ((SimulationApp empty_sim_config)\<lparr>process := Some 4242, is_running := True\<rparr>),
       webrtc_client = Some ((WebRTCClient ''3.239.124.24'' 8211)\<lparr>websocket := Some 7, is_connected := True\<rparr>),
       rest_client = Some ((RESTClient ''3.239.124.24'' 3009)\<lparr>session := Some 1\<rparr>),
       is_initialized = True \<rparr>"
  by (simp add: ready_env_def initialize_def initialize_body_def start_def start_body_def
      is_isaac_running_def connect_def rest_connect_def quiet_world_def IsaacSimEnvironment_def
      default_config_def get_default_def SimulationApp_def WebRTCClient_def RESTClient_def Let_def)
























section \<open>Initializing\<close>

lemma start_no_connection: "filter connection_event (snd (snd (start w a))) = []"
  by (auto simp: start_def start_body_def is_isaac_running_def Let_def split: sum.splits option.splits bool.splits)

text \<open>
  C5. \<open>initialize\<close> starts the process first. When the start answers false,
  \<open>initialize\<close> returns false having opened neither the streaming transport nor the
  control-plane session. When the start answers true, \<open>initialize\<close> attempts the
  streaming connect and, whatever that answers, goes on to the control-plane connect,
  sets \<open>is_initialized\<close> and returns true. An exception that leaves the block is turned
  into the result false.
\<close>

theorem initialize_sequence:
  "(simulation_app e = Some a \<and> start w a = (False, a1, ev1) \<longrightarrow>
      initialize w e = (False, e\<lparr>simulation_app := Some a1\<rparr>, ev1)
      \<and> filter connection_event ev1 = [])
   \<and> (simulation_app e = Some a \<and> start w a = (True, a1, ev1)
      \<and> webrtc_client e = Some c \<and> rest_client e = Some r \<longrightarrow>
      initialize w e =
        (True,
         e\<lparr>simulation_app := Some a1,
           webrtc_client := Some (fst (snd (connect w c))),
           rest_client := Some (fst (rest_connect w r)),
           is_initialized := True\<rparr>,
         ev1 @ [WsConnect (webrtc_url c)] @ snd (rest_connect w r)))
   \<and> (fst (initialize_body w e) = Inl x \<longrightarrow> fst (initialize w e) = False)"
proof -
  have A: "simulation_app e = Some a \<and> start w a = (False, a1, ev1) \<longrightarrow>
      initialize w e = (False, e\<lparr>simulation_app := Some a1\<rparr>, ev1)
      \<and> filter connection_event ev1 = []"
    using start_no_connection [of w a]
    by (auto simp: initialize_def initialize_body_def)
  have B: "simulation_app e = Some a \<and> start w a = (True, a1, ev1)
      \<and> webrtc_client e = Some c \<and> rest_client e = Some r \<longrightarrow>
      initialize w e =
        (True,
         e\<lparr>simulation_app := Some a1,
           webrtc_client := Some (fst (snd (connect w c))),
           rest_client := Some (fst (rest_connect w r)),
           is_initialized := True\<rparr>,
         ev1 @ [WsConnect (webrtc_url c)] @ snd (rest_connect w r))"
    by (auto simp: initialize_def initialize_body_def Let_def connect_def split: sum.splits prod.splits)
  have C: "fst (initialize_body w e) = Inl x \<longrightarrow> fst (initialize w e) = False"
    by (auto simp: initialize_def split: prod.splits sum.splits)
  from A B C show ?thesis by blast
qed

lemma start_exiting:
  "start exiting_world (SimulationApp empty_sim_config) =
     (False, (SimulationApp empty_sim_config)\<lparr>process := Some 4242\<rparr>,
      [Pgrep, Popen (isaac_cmd (SimulationApp empty_sim_config)), Sleep 2, Poll 4242])"
  by (simp add: start_def start_body_def is_isaac_running_def exiting_world_def quiet_world_def
      SimulationApp_def Let_def)

lemma start_no_stream:
  "start no_stream_world (SimulationApp empty_sim_config) =
     (True, (SimulationApp empty_sim_config)\<lparr>process := Some 4242, is_running := True\<rparr>,
      [Pgrep, Popen (isaac_cmd (SimulationApp empty_sim_config)), Sleep 2, Poll 4242])"
  by (simp add: start_def start_body_def is_isaac_running_def no_stream_world_def quiet_world_def
      SimulationApp_def Let_def)

lemma default_env_fields:
  "simulation_app (IsaacSimEnvironment default_config) = Some (SimulationApp empty_sim_config)"
  "webrtc_client (IsaacSimEnvironment default_config) = Some (WebRTCClient ''3.239.124.24'' 8211)"
  "rest_client (IsaacSimEnvironment default_config) = Some (RESTClient ''3.239.124.24'' 3009)"
  "is_initialized (IsaacSimEnvironment default_config) = False"
  by (simp_all add: IsaacSimEnvironment_def default_config_def get_default_def)

theorem initialize_sequence_witness:
  "fst (initialize exiting_world (IsaacSimEnvironment default_config)) = False
   \<and> snd (snd (initialize exiting_world (IsaacSimEnvironment default_config))) =
       [Pgrep, Popen (isaac_cmd (SimulationApp empty_sim_config)), Sleep 2, Poll 4242]
   \<and> is_initialized (fst (snd (initialize exiting_world (IsaacSimEnvironment default_config)))) = False
   \<and> fst (initialize no_stream_world (IsaacSimEnvironment default_config)) = True
   \<and> is_initialized (fst (snd (initialize no_stream_world (IsaacSimEnvironment default_config)))) = True
   \<and> snd (snd (initialize no_stream_world (IsaacSimEnvironment default_config))) =
       [Pgrep, Popen (isaac_cmd (SimulationApp empty_sim_config)), Sleep 2, Poll 4242,
        WsConnect (webrtc_url (WebRTCClient ''3.239.124.24'' 8211)), SessionCreate]
   \<and> fst (initialize quiet_world ((IsaacSimEnvironment default_config)\<lparr>simulation_app := None\<rparr>)) = False"
proof -
  let ?e = "IsaacSimEnvironment default_config"
  have rc: "snd (rest_connect no_stream_world (RESTClient ''3.239.124.24'' 3009)) = [SessionCreate]"
    by (simp add: rest_connect_def RESTClient_def)
  have body: "fst (initialize_body quiet_world (?e\<lparr>simulation_app := None\<rparr>)) = Inl (none_error ''start'')"
    by (simp add: initialize_body_def)
  show ?thesis
    using initialize_sequence [where e = ?e and w = exiting_world and a = "SimulationApp empty_sim_config"]
      initialize_sequence [where e = ?e and w = no_stream_world and a = "SimulationApp empty_sim_config"
        and c = "WebRTCClient ''3.239.124.24'' 8211" and r = "RESTClient ''3.239.124.24'' 3009"]
      initialize_sequence [where e = "?e\<lparr>simulation_app := None\<rparr>" and w = quiet_world
        and x = "none_error ''start''"]
      start_exiting start_no_stream default_env_fields rc body
    by simp
qed

section \<open>How the receive loop ends\<close>

text \<open>
  Against C3 as stated: a connected client whose iteration ends with an exception other
  than \<open>ConnectionClosed\<close> is unchanged after \<open>receive_messages\<close>, and still has
  \<open>is_connected\<close> true.
\<close>

theorem receive_counterexample:
  "is_connected connected_client
   \<and> receive_messages reset_world connected_client = (connected_client, [WsIterate 7])
   \<and> is_connected (fst (receive_messages reset_world connected_client))"
  by (simp add: receive_messages_def reset_world_def quiet_world_def connected_client_fields)

text \<open>
  C3, amended. When the receive loop of a connected client ends because the iteration
  raised: if the exception is \<open>ConnectionClosed\<close>, \<open>is_connected\<close> is false after the
  loop and nothing else has changed; if it is any other exception, it is only logged and
  the client, with \<open>is_connected\<close> true, is as it was. The handle stays stored in both
  cases.
\<close>

theorem receive_end_state:
  "is_connected c \<and> websocket c = Some h \<and> ws_end w = IterRaises x \<longrightarrow>
     is_connected (fst (receive_messages w c)) = (\<not> is_connection_closed x)
     \<and> websocket (fst (receive_messages w c)) = Some h
     \<and> (is_connection_closed x \<longrightarrow> fst (receive_messages w c) = c\<lparr>is_connected := False\<rparr>)
     \<and> (\<not> is_connection_closed x \<longrightarrow> fst (receive_messages w c) = c)"
  by (cases x) (simp_all add: receive_messages_def Let_def)

theorem receive_end_state_witness:
  "is_connected (fst (receive_messages closed_world connected_client)) = False
   \<and> is_connected (fst (receive_messages reset_world connected_client)) = True"
  using receive_end_state [of connected_client 7 closed_world "ConnectionClosed ''no close frame received''"]
    receive_end_state [of connected_client 7 reset_world "OtherException ''connection reset''"]
    connected_client_fields
  by (simp add: closed_world_def reset_world_def quiet_world_def)

section \<open>Connecting while connected\<close>

lemma connected_client_url: "webrtc_url connected_client = ''ws://localhost:9000/streaming/webrtc''"
  by (simp add: webrtc_url_def connected_client_def set_audio_callback_def set_frame_callback_def
      connect_def quiet_world_def WebRTCClient_def str_int_def)

text \<open>
  Against C4 as stated: \<open>connect\<close> on a client that is connected on handle 7 opens a
  transport again and stores the new handle 8 in place of 7.
\<close>

theorem connect_counterexample:
  "is_connected connected_client
   \<and> websocket connected_client = Some 7
   \<and> connect second_transport_world connected_client =
       (True, connected_client\<lparr>websocket := Some 8\<rparr>,
        [WsConnect ''ws://localhost:9000/streaming/webrtc''])
   \<and> websocket (fst (snd (connect second_transport_world connected_client))) = Some 8"
  by (simp add: connect_def second_transport_world_def quiet_world_def connected_client_fields
      connected_client_url)

text \<open>
  C4, amended. \<open>connect\<close> does not look at the current state: every call asks for a new
  transport, stores its handle in place of the old one on success, and on failure keeps
  the stored handle and clears \<open>is_connected\<close>. \<open>start_streaming\<close> on a connected client
  does not call \<open>connect\<close> and leaves the client unchanged, so a second
  \<open>start_streaming\<close> right after one that returned true opens no transport and
  replaces no handle.
\<close>

theorem connect_reopens:
  "(ws_connect w = Inr h \<longrightarrow>
      connect w c = (True, c\<lparr>websocket := Some h, is_connected := True\<rparr>, [WsConnect (webrtc_url c)]))
   \<and> (ws_connect w = Inl x \<longrightarrow>
      connect w c = (False, c\<lparr>is_connected := False\<rparr>, [WsConnect (webrtc_url c)]))
   \<and> (is_connected c \<longrightarrow>
      fst (snd (start_streaming w c)) = c
      \<and> filter connection_event (snd (snd (start_streaming w c))) = [])
   \<and> (fst (start_streaming w c) \<longrightarrow>
      fst (snd (start_streaming w' (fst (snd (start_streaming w c))))) = fst (snd (start_streaming w c))
      \<and> filter connection_event (snd (snd (start_streaming w' (fst (snd (start_streaming w c)))))) = [])"
  by (auto simp: connect_def start_streaming_def send_message_def split: sum.splits option.splits)

theorem connect_reopens_witness:
  "connect second_transport_world connected_client =
     (True, connected_client\<lparr>websocket := Some 8, is_connected := True\<rparr>,
      [WsConnect ''ws://localhost:9000/streaming/webrtc''])
   \<and> connect no_stream_world connected_client =
     (False, connected_client\<lparr>is_connected := False\<rparr>,
      [WsConnect ''ws://localhost:9000/streaming/webrtc''])
   \<and> fst (snd (start_streaming no_stream_world connected_client)) = connected_client
   \<and> filter connection_event (snd (snd (start_streaming no_stream_world connected_client))) = []"
proof -
  have a: "ws_connect second_transport_world = Inr 8"
    "ws_connect no_stream_world = Inl (OtherException ''refused'')"
    by (simp_all add: second_transport_world_def no_stream_world_def quiet_world_def)
  from connect_reopens [where w = second_transport_world and c = connected_client and h = 8]
    connect_reopens [where w = no_stream_world and c = connected_client
      and x = "OtherException ''refused''"]
    a connected_client_fields connected_client_url
  show ?thesis by simp
qed

section \<open>Control-plane requests\<close>

text \<open>
  Against C6 as stated: a response with status 500 whose body text cannot be read (the
  log line reads it before the return) gives the text of that exception, not
  \<open>HTTP 500\<close>.
\<close>

theorem make_request_counterexample:
  "fst (make_request http500_unreadable_world (RESTClient ''localhost'' 4000) ''GET'' ''/health'' None) =
     JObj [(''error'', JStr ''payload error'')]
   \<and> fst (make_request http500_unreadable_world (RESTClient ''localhost'' 4000) ''GET'' ''/health'' None) \<noteq>
     JObj [(''error'', JStr ''HTTP 500'')]"
  by (simp add: make_request_def rest_connect_def request_body_def error_result_def
      http500_unreadable_world_def quiet_world_def RESTClient_def)

text \<open>
  C6, amended. \<open>_make_request\<close> always returns a value. A response with a status other
  than 200 whose body text is read without an exception gives \<open>{'error': 'HTTP <status>'}\<close>.
  An exception raised anywhere in the exchange (by the request, by decoding the body of
  a 200 response, or by reading the body text of another response) gives
  \<open>{'error': <exception text>}\<close>. A 200 response that decodes gives the decoded body.
  In every case but the last the result contains the key \<open>error\<close>.
\<close>

theorem make_request_errors:
  "(http w = Response status body (Inr t) \<and> status \<noteq> 200 \<longrightarrow>
      fst (make_request w r verb endpoint data) = JObj [(''error'', JStr (''HTTP '' @ str_int status))])
   \<and> (http w = RequestRaises x \<longrightarrow>
      fst (make_request w r verb endpoint data) = JObj [(''error'', JStr (str_exn x))])
   \<and> (http w = Response 200 (Inl x) text \<longrightarrow>
      fst (make_request w r verb endpoint data) = JObj [(''error'', JStr (str_exn x))])
   \<and> (http w = Response status body (Inl x) \<and> status \<noteq> 200 \<longrightarrow>
      fst (make_request w r verb endpoint data) = JObj [(''error'', JStr (str_exn x))])
   \<and> (http w = Response 200 (Inr j) text \<longrightarrow>
      fst (make_request w r verb endpoint data) = j)
   \<and> (http w = RequestRaises x \<or> http w = Response 200 (Inl x) text
       \<or> (http w = Response status body text' \<and> status \<noteq> 200) \<longrightarrow>
      py_in ''error'' (fst (make_request w r verb endpoint data)) = Inr True)"
  by (auto simp: make_request_def rest_connect_def request_body_def error_result_def
      split: option.splits sum.splits http_outcome.splits)

theorem make_request_errors_witness:
  "fst (make_request http500_world (RESTClient ''localhost'' 4000) ''GET'' ''/health'' None) =
     JObj [(''error'', JStr ''HTTP 500'')]
   \<and> fst (make_request unreachable_world (RESTClient ''localhost'' 4000) ''GET'' ''/health'' None) =
     JObj [(''error'', JStr ''Cannot connect to host'')]
   \<and> fst (make_request http500_unreadable_world (RESTClient ''localhost'' 4000) ''GET'' ''/health'' None) =
     JObj [(''error'', JStr ''payload error'')]
   \<and> py_in ''error'' (fst (make_request http500_world (RESTClient ''localhost'' 4000) ''GET'' ''/health'' None)) = Inr True"
  using make_request_errors [where w = http500_world and status = 500 and body = "Inr JNull"
      and t = "''Internal Server Error''" and text' = "Inr ''Internal Server Error''"
      and r = "RESTClient ''localhost'' 4000" and verb = "''GET''" and endpoint = "''/health''" and data = None]
    make_request_errors [where w = unreachable_world and x = "OtherException ''Cannot connect to host''"
      and r = "RESTClient ''localhost'' 4000" and verb = "''GET''" and endpoint = "''/health''" and data = None]
    make_request_errors [where w = http500_unreadable_world and status = 500 and body = "Inr JNull"
      and x = "OtherException ''payload error''"
      and r = "RESTClient ''localhost'' 4000" and verb = "''GET''" and endpoint = "''/health''" and data = None]
    str_int_500
  by (simp add: http500_world_def unreachable_world_def http500_unreadable_world_def quiet_world_def)

section \<open>Simulation calls\<close>

lemma make_request_trace: "filter initialize_event (snd (snd (make_request w r m ep d))) = []"
  by (simp add: make_request_def rest_connect_def split: option.splits sum.splits)

lemma result_ok_obj: "result_ok (JObj kvs) = (''error'' \<notin> fst ` set kvs)"
  by (simp add: result_ok_def)

text \<open>
  Against C2 as stated: on a fresh environment, in a world where the simulator binary is
  missing so that \<open>initialize\<close> returns false, \<open>stop_simulation\<close> returns true. It
  makes no call of \<open>initialize\<close>: only the session is created and the request sent, and
  \<open>is_initialized\<close> is still false.
\<close>

theorem stop_simulation_counterexample:
  "\<not> is_initialized (IsaacSimEnvironment default_config)
   \<and> initialize no_binary_world (IsaacSimEnvironment default_config) =
       (False, IsaacSimEnvironment default_config,
        [Pgrep, Popen (isaac_cmd (SimulationApp empty_sim_config))])
   \<and> stop_simulation no_binary_world (IsaacSimEnvironment default_config) =
       (True,
        (IsaacSimEnvironment default_config)
          \<lparr>rest_client := Some ((RESTClient ''3.239.124.24'' 3009)\<lparr>session := Some 1\<rparr>)\<rparr>,
        [SessionCreate, HttpRequest 1 ''POST'' ''/simulation/stop'' None])"
  by (simp add: default_env_fields initialize_def initialize_body_def start_def start_body_def
      is_isaac_running_def stop_simulation_def rest_stop_simulation_def make_request_def
      rest_connect_def request_body_def result_ok_def no_binary_world_def quiet_world_def
      SimulationApp_def RESTClient_def)

text \<open>
  C2, amended. \<open>start_simulation\<close>, called while not initialized, first calls
  \<open>initialize\<close> and returns false with nothing more done when that fails; otherwise (or
  when already initialized) it delegates to the control-plane client. \<open>stop_simulation\<close>
  never calls \<open>initialize\<close>: it delegates at once, and only the control-plane client
  changes. For both, a result dictionary without the key \<open>error\<close> gives true and one
  with it gives false.
\<close>

theorem simulation_calls:
  "(\<not> is_initialized e \<and> fst (initialize w e) = False \<longrightarrow>
      start_simulation w e config = initialize w e)
   \<and> (\<not> is_initialized e \<and> initialize w e = (True, e1, ev1) \<and> rest_client e1 = Some r
      \<and> rest_start_simulation w r config = (JObj kvs, r1, ev2) \<longrightarrow>
      start_simulation w e config =
        (''error'' \<notin> fst ` set kvs, e1\<lparr>rest_client := Some r1\<rparr>, ev1 @ ev2))
   \<and> (is_initialized e \<and> rest_client e = Some r
      \<and> rest_start_simulation w r config = (JObj kvs, r1, ev2) \<longrightarrow>
      start_simulation w e config =
        (''error'' \<notin> fst ` set kvs, e\<lparr>rest_client := Some r1\<rparr>, ev2))
   \<and> (rest_client e = Some r \<and> rest_stop_simulation w r = (JObj kvs, r1, ev) \<longrightarrow>
      stop_simulation w e = (''error'' \<notin> fst ` set kvs, e\<lparr>rest_client := Some r1\<rparr>, ev)
      \<and> filter initialize_event ev = [])"
proof -
  have A: "\<not> is_initialized e \<and> fst (initialize w e) = False \<longrightarrow>
      start_simulation w e config = initialize w e"
    by (cases "initialize w e") (auto simp: start_simulation_def)
  have B: "\<not> is_initialized e \<and> initialize w e = (True, e1, ev1) \<and> rest_client e1 = Some r
      \<and> rest_start_simulation w r config = (JObj kvs, r1, ev2) \<longrightarrow>
      start_simulation w e config =
        (''error'' \<notin> fst ` set kvs, e1\<lparr>rest_client := Some r1\<rparr>, ev1 @ ev2)"
    by (simp add: start_simulation_def result_ok_obj)
  have C: "is_initialized e \<and> rest_client e = Some r
      \<and> rest_start_simulation w r config = (JObj kvs, r1, ev2) \<longrightarrow>
      start_simulation w e config =
        (''error'' \<notin> fst ` set kvs, e\<lparr>rest_client := Some r1\<rparr>, ev2)"
    by (simp add: start_simulation_def result_ok_obj)
  have D: "rest_client e = Some r \<and> rest_stop_simulation w r = (JObj kvs, r1, ev) \<longrightarrow>
      stop_simulation w e = (''error'' \<notin> fst ` set kvs, e\<lparr>rest_client := Some r1\<rparr>, ev)
      \<and> filter initialize_event ev = []"
    using make_request_trace [of w r "''POST''" "''/simulation/stop''" None]
    by (auto simp: stop_simulation_def result_ok_obj rest_stop_simulation_def)
  from A B C D show ?thesis by blast
qed

lemma initialize_quiet:
  "initialize quiet_world (IsaacSimEnvironment default_config) =
     (True, ready_env,
      [Pgrep, Popen (isaac_cmd (SimulationApp empty_sim_config)), Sleep 2, Poll 4242,
       WsConnect (webrtc_url (WebRTCClient ''3.239.124.24'' 8211)), SessionCreate])"
  by (simp add: ready_env_eq initialize_def initialize_body_def start_def start_body_def
      is_isaac_running_def connect_def rest_connect_def quiet_world_def IsaacSimEnvironment_def
      default_config_def get_default_def SimulationApp_def WebRTCClient_def RESTClient_def Let_def)

lemma initialize_no_binary:
  "initialize no_binary_world (IsaacSimEnvironment default_config) =
     (False, IsaacSimEnvironment default_config,
      [Pgrep, Popen (isaac_cmd (SimulationApp empty_sim_config))])"
  by (simp add: default_env_fields initialize_def initialize_body_def start_def start_body_def
      is_isaac_running_def no_binary_world_def quiet_world_def SimulationApp_def)

theorem simulation_calls_witness:
  "start_simulation no_binary_world (IsaacSimEnvironment default_config) None =
     (False, IsaacSimEnvironment default_config,
      [Pgrep, Popen (isaac_cmd (SimulationApp empty_sim_config))])
   \<and> start_simulation quiet_world (IsaacSimEnvironment default_config) None =
     (True, ready_env,
      [Pgrep, Popen (isaac_cmd (SimulationApp empty_sim_config)), Sleep 2, Poll 4242,
       WsConnect (webrtc_url (WebRTCClient ''3.239.124.24'' 8211)), SessionCreate,
       HttpRequest 1 ''POST'' ''/simulation/start'' (Some (JObj []))])
   \<and> stop_simulation http500_world ready_env =
     (False, ready_env, [HttpRequest 1 ''POST'' ''/simulation/stop'' None])"
proof -
  let ?e = "IsaacSimEnvironment default_config"
  let ?r = "(RESTClient ''3.239.124.24'' 3009)\<lparr>session := Some 1\<rparr>"
  have rc: "rest_client ready_env = Some ?r"
    by (simp add: ready_env_eq)
  have same: "ready_env\<lparr>rest_client := Some ?r\<rparr> = ready_env"
    by (simp add: ready_env_eq)
  have s1: "rest_start_simulation quiet_world ?r None =
      (JObj [], ?r, [HttpRequest 1 ''POST'' ''/simulation/start'' (Some (JObj []))])"
    by (simp add: rest_start_simulation_def make_request_def request_body_def quiet_world_def
        RESTClient_def)
  have s2: "rest_stop_simulation http500_world ?r =
      (JObj [(''error'', JStr ''HTTP 500'')], ?r, [HttpRequest 1 ''POST'' ''/simulation/stop'' None])"
    by (simp add: rest_stop_simulation_def make_request_def request_body_def http500_world_def
        quiet_world_def RESTClient_def error_result_def str_int_500)
  from simulation_calls [where e = ?e and w = no_binary_world and config = None]
    simulation_calls [where e = ?e and w = quiet_world and config = None and ?e1.0 = ready_env
      and r = ?r and kvs = "[]" and ?r1.0 = ?r]
    simulation_calls [where e = ready_env and w = http500_world and r = ?r
      and kvs = "[(''error'', JStr ''HTTP 500'')]" and ?r1.0 = ?r]
    initialize_quiet initialize_no_binary default_env_fields rc same s1 s2
  show ?thesis by simp
qed

end
